theory Spec2Isabelle
  imports Main "HOL-Library.AList"
begin

section \<open>The world the program runs in\<close>

text \<open>
  The program is a Node.js command line tool. Everything it touches is collected in one
  record: the file system, the four SQLite tables, the clock, and two instruments of the
  model, a list of operations that fail when attempted (failure injection) and a log of
  the effects performed so far (to state ordering properties).

  Paths are POSIX strings. File contents are byte lists. Times are milliseconds since the
  epoch, as \<^verbatim>\<open>Date.now()\<close> returns them; JavaScript numbers are doubles,
  which are exact on the integers of this range, so differences are taken in \<open>int\<close>.
\<close>

type_synonym path = string
type_synonym bytes = "nat list"

datatype node = File bytes nat | Dir nat

datatype error =
    ENOENT | EISDIR | EPERM | EEXIST | ENOTDIR | EACCES
  | StoreFailure | NotInitialized | Exit nat

datatype syscall =
    CopyFile path path | Unlink path | Mkdir path | Stat path | Readdir path
  | Sql string string

record FileInfo =
  f_path :: path
  f_size :: nat
  f_mtime :: "string option"
  lastAccessed :: nat

record BackupInfo =
  originalPath :: path
  backupPath :: path
  b_size :: nat
  createdAt :: nat

record DeletedFileInfo =
  d_path :: path
  deletedAt :: nat
  d_backupPath :: path
  d_size :: nat

datatype message =
    SkippingNonExistent string
  | NoScreenshotsToDelete
  | InvalidNumber
  | PreparingToDelete nat "nat option"
  | DeletionSummary nat nat
  | OnlyAvailable nat nat

datatype event =
    Copied path path
  | Unlinked path
  | MadeDir path
  | FileRowAdded path
  | FileRowDeleted path
  | FileAccessUpdated path nat
  | BackupRowAdded path path
  | BackupRowRemoved path
  | MarkerAdded path path
  | MarkerRemoved path
  | SettingSet string string
  | Vacuumed
  | Console message

record world =
  fs :: "(path \<times> node) list"
  db_open :: bool
  files :: "FileInfo list"
  backups :: "BackupInfo list"
  deleted_files :: "DeletedFileInfo list"
  settings :: "(string \<times> string \<times> nat) list"
  now :: nat
  ticks :: "nat list"
  faults :: "syscall list"
  log :: "event list"

text \<open>
  \<^verbatim>\<open>CONFIG\<close> of \<^verbatim>\<open>src/config/index.ts\<close>, the fields the modelled
  code reads. \<open>targetDir\<close> is \<^verbatim>\<open>CONFIG.defaultScreenshotDirs[0]\<close>.
\<close>

record config =
  targetDir :: path
  screenshotDir :: path
  cacheDir :: path
  maxCacheAge :: nat
  cacheCleanupInterval :: nat
  cacheExpirationTime :: nat
  maxBackupAge :: nat
  maxBackupSets :: nat

text \<open>
  What the process gets from its platform: the working directory, the home directory,
  \<^verbatim>\<open>Date.prototype.toISOString\<close> and the regular expressions of
  \<^verbatim>\<open>CONFIG.screenshotPatterns\<close> (library code, taken as parameters), and the
  configuration.
\<close>

record env =
  cwd :: path
  home :: path
  toISOString :: "nat \<Rightarrow> string"
  isScreenshot :: "string \<Rightarrow> bool"
  CONFIG :: config

section \<open>Paths and numbers as strings\<close>

text \<open>
  \<^verbatim>\<open>path.join\<close> on operands that are already normalised: the directory has no
  trailing slash and the name is a single component.
\<close>

definition join :: "path \<Rightarrow> string \<Rightarrow> path" where
  "join d n = d @ ''/'' @ n"

definition basename :: "path \<Rightarrow> string" where
  "basename p =
     rev (takeWhile (\<lambda>c. c \<noteq> CHR ''/'') (dropWhile (\<lambda>c. c = CHR ''/'') (rev p)))"

definition dirname :: "path \<Rightarrow> path" where
  "dirname p =
     rev (drop 1 (dropWhile (\<lambda>c. c \<noteq> CHR ''/'') (dropWhile (\<lambda>c. c = CHR ''/'') (rev p))))"

definition startsWith :: "string \<Rightarrow> string \<Rightarrow> bool" where
  "startsWith s pre = (take (length pre) s = pre)"

text \<open>\<^verbatim>\<open>originalPath.replace(/[\/\\]/g, '_')\<close>\<close>

definition safePath :: "path \<Rightarrow> string" where
  "safePath p = map (\<lambda>c. if c = CHR ''/'' \<or> c = CHR 0x5C then CHR ''_'' else c) p"

text \<open>Number to string, for a non-negative integer: its decimal digits.\<close>

fun show_nat :: "nat \<Rightarrow> string" where
  "show_nat n =
     (if n < 10 then [char_of (48 + n)]
      else show_nat (n div 10) @ [char_of (48 + n mod 10)])"

declare show_nat.simps [simp del]

text \<open>
  \<^verbatim>\<open>parseInt(string, radix)\<close> with the radix 10 or absent: leading white space is
  skipped, a sign is read, without a radix a prefix \<^verbatim>\<open>0x\<close> selects base 16,
  and the longest prefix of digits is the value. \<open>None\<close> is \<^verbatim>\<open>NaN\<close>.
  Only ASCII white space is recognised.
\<close>

definition isWhiteSpace :: "char \<Rightarrow> bool" where
  "isWhiteSpace c = (of_char c \<in> {9::nat, 10, 11, 12, 13, 32})"

definition digitVal :: "nat \<Rightarrow> char \<Rightarrow> nat option" where
  "digitVal r c =
     (let n = (of_char c :: nat);
          v = (if 48 \<le> n \<and> n \<le> 57 then Some (n - 48)
               else if 97 \<le> n \<and> n \<le> 122 then Some (n - 87)
               else if 65 \<le> n \<and> n \<le> 90 then Some (n - 55)
               else None)
      in case v of None \<Rightarrow> None | Some d \<Rightarrow> if d < r then Some d else None)"

fun parseDigits :: "nat \<Rightarrow> nat option \<Rightarrow> string \<Rightarrow> nat option" where
  "parseDigits r acc [] = acc"
| "parseDigits r acc (c # cs) =
     (case digitVal r c of
        None \<Rightarrow> acc
      | Some d \<Rightarrow> parseDigits r (Some ((case acc of None \<Rightarrow> 0 | Some a \<Rightarrow> a) * r + d)) cs)"

definition parseInt :: "bool \<Rightarrow> string \<Rightarrow> int option" where
  "parseInt radix10 s =
     (let s1 = dropWhile isWhiteSpace s;
          neg = (s1 \<noteq> [] \<and> hd s1 = CHR ''-'');
          s2 = (if s1 \<noteq> [] \<and> (hd s1 = CHR ''-'' \<or> hd s1 = CHR ''+'') then tl s1 else s1);
          hex = (\<not> radix10 \<and> (take 2 s2 = ''0x'' \<or> take 2 s2 = ''0X''));
          s3 = (if hex then drop 2 s2 else s2)
      in case parseDigits (if hex then 16 else 10) None s3 of
           None \<Rightarrow> None
         | Some v \<Rightarrow> Some (if neg then - int v else int v))"

section \<open>Computations: state and exceptions\<close>

text \<open>
  An \<^verbatim>\<open>async\<close> function is a function from the world to a result and the world
  it leaves. A thrown exception is \<open>Inl\<close>; the effects performed before it stay.
\<close>

type_synonym 'a io = "world \<Rightarrow> (error + 'a) \<times> world"

definition io_return :: "'a \<Rightarrow> 'a io" where
  "io_return x w = (Inr x, w)"

definition io_throw :: "error \<Rightarrow> 'a io" where
  "io_throw e w = (Inl e, w)"

definition io_bind :: "'a io \<Rightarrow> ('a \<Rightarrow> 'b io) \<Rightarrow> 'b io" where
  "io_bind m f w = (case m w of (Inl e, w') \<Rightarrow> (Inl e, w') | (Inr x, w') \<Rightarrow> f x w')"

definition io_catch :: "'a io \<Rightarrow> (error \<Rightarrow> 'a io) \<Rightarrow> 'a io" where
  "io_catch m h w = (case m w of (Inl e, w') \<Rightarrow> h e w' | (Inr x, w') \<Rightarrow> (Inr x, w'))"

definition emit :: "event \<Rightarrow> unit io" where
  "emit e w = (Inr (), w\<lparr>log := log w @ [e]\<rparr>)"

definition failing :: "syscall \<Rightarrow> world \<Rightarrow> bool" where
  "failing c w = (c \<in> set (faults w))"

subsection \<open>The clock\<close>

text \<open>
  \<^verbatim>\<open>Date.now()\<close> returns the clock and the clock then moves on by the next
  tick, which may be zero (two readings within one millisecond). The ticks are natural
  numbers: the clock never runs backwards.
\<close>

definition Date_now :: "nat io" where
  "Date_now w =
     (Inr (now w),
      w\<lparr>now := now w + (case ticks w of [] \<Rightarrow> 0 | t # _ \<Rightarrow> t), ticks := tl (ticks w)\<rparr>)"

subsection \<open>The file system\<close>

text \<open>
  \<^verbatim>\<open>fs\<close> and \<^verbatim>\<open>fs/promises\<close>. A path holds a regular file (content and
  modification time) or a directory; the root is not listed and always exists.
\<close>

definition existsSync :: "path \<Rightarrow> world \<Rightarrow> bool" where
  "existsSync p w = (map_of (fs w) p \<noteq> None)"

definition is_file :: "path \<Rightarrow> world \<Rightarrow> bool" where
  "is_file p w = (case map_of (fs w) p of Some (File _ _) \<Rightarrow> True | _ \<Rightarrow> False)"

definition is_dir :: "path \<Rightarrow> world \<Rightarrow> bool" where
  "is_dir p w = (case map_of (fs w) p of Some (Dir _) \<Rightarrow> True | _ \<Rightarrow> False)"

text \<open>The proper ancestors of a path, outermost first: its prefixes that end before a slash.\<close>

definition parents :: "path \<Rightarrow> path list" where
  "parents p = map (\<lambda>i. take i p) (filter (\<lambda>i. p ! i = CHR ''/'') [1..<length p])"

text \<open>
  The error of an operation on a path that does not exist: \<^verbatim>\<open>ENOTDIR\<close> when a
  proper ancestor of the path is a regular file, \<^verbatim>\<open>ENOENT\<close> otherwise.
\<close>

definition absent_error :: "path \<Rightarrow> world \<Rightarrow> error" where
  "absent_error p w = (if list_ex (\<lambda>a. is_file a w) (parents p) then ENOTDIR else ENOENT)"

text \<open>
  \<^verbatim>\<open>copyFile(src, dst)\<close>: the source must be a regular file, the destination must
  not be a directory, and the destination's directory must exist.
\<close>

definition copyFile :: "path \<Rightarrow> path \<Rightarrow> unit io" where
  "copyFile src dst w =
     (if failing (CopyFile src dst) w then (Inl EACCES, w)
      else case map_of (fs w) src of
        None \<Rightarrow> (Inl (absent_error src w), w)
      | Some (Dir _) \<Rightarrow> (Inl EISDIR, w)
      | Some (File c _) \<Rightarrow>
          if is_dir dst w then (Inl EISDIR, w)
          else if dirname dst \<noteq> [] \<and> is_file (dirname dst) w then (Inl ENOTDIR, w)
          else if dirname dst \<noteq> [] \<and> \<not> is_dir (dirname dst) w
               then (Inl (absent_error dst w), w)
          else (Inr (), w\<lparr>fs := AList.update dst (File c (now w)) (fs w),
                           log := log w @ [Copied src dst]\<rparr>))"

definition unlink :: "path \<Rightarrow> unit io" where
  "unlink p w =
     (if failing (Unlink p) w then (Inl EACCES, w)
      else case map_of (fs w) p of
        None \<Rightarrow> (Inl (absent_error p w), w)
      | Some (Dir _) \<Rightarrow> (Inl EPERM, w)
      | Some (File _ _) \<Rightarrow>
          (Inr (), w\<lparr>fs := AList.delete p (fs w), log := log w @ [Unlinked p]\<rparr>))"

text \<open>
  \<^verbatim>\<open>mkdir(p, { recursive: true })\<close>: creates the missing ancestors and the
  directory; an existing directory is left as it is; a regular file in the way is an error.
\<close>

definition mkdirs :: "nat \<Rightarrow> path list \<Rightarrow> (path \<times> node) list \<Rightarrow> (path \<times> node) list" where
  "mkdirs t ds f = fold (\<lambda>d g. if map_of g d = None then AList.update d (Dir t) g else g) ds f"

definition mkdir :: "path \<Rightarrow> unit io" where
  "mkdir p w =
     (if failing (Mkdir p) w then (Inl EACCES, w)
      else case map_of (fs w) p of
        Some (File _ _) \<Rightarrow> (Inl EEXIST, w)
      | Some (Dir _) \<Rightarrow> (Inr (), w)
      | None \<Rightarrow>
          if list_ex (\<lambda>a. is_file a w) (parents p) then (Inl ENOTDIR, w)
          else (Inr (), w\<lparr>fs := mkdirs (now w) (parents p @ [p]) (fs w),
                           log := log w @ [MadeDir p]\<rparr>))"

text \<open>\<^verbatim>\<open>stat(p)\<close>: the size and the modification time.\<close>

definition stat :: "path \<Rightarrow> (nat \<times> nat) io" where
  "stat p w =
     (if failing (Stat p) w then (Inl EACCES, w)
      else case map_of (fs w) p of
        None \<Rightarrow> (Inl (absent_error p w), w)
      | Some (Dir m) \<Rightarrow> (Inr (0, m), w)
      | Some (File c m) \<Rightarrow> (Inr (length c, m), w))"

definition child_name :: "path \<Rightarrow> path \<Rightarrow> string option" where
  "child_name d p =
     (let pre = d @ ''/''; n = drop (length pre) p
      in if startsWith p pre \<and> n \<noteq> [] \<and> CHR ''/'' \<notin> set n then Some n else None)"

definition readdir :: "path \<Rightarrow> (string list) io" where
  "readdir d w =
     (if failing (Readdir d) w then (Inl EACCES, w)
      else case map_of (fs w) d of
        None \<Rightarrow> (Inl (absent_error d w), w)
      | Some (File _ _) \<Rightarrow> (Inl ENOTDIR, w)
      | Some (Dir _) \<Rightarrow> (Inr (List.map_filter (child_name d) (map fst (fs w))), w))"

subsection \<open>Loops\<close>

text \<open>\<^verbatim>\<open>for (const x of xs) { await f(x) }\<close>: an exception leaves the loop.\<close>

fun forEach :: "('a \<Rightarrow> unit io) \<Rightarrow> 'a list \<Rightarrow> unit io" where
  "forEach f [] = io_return ()"
| "forEach f (x # xs) = io_bind (f x) (\<lambda>_. forEach f xs)"

section \<open>DatabaseManager\<close>

text \<open>
  The tables are lists in row order. \<^verbatim>\<open>INSERT OR REPLACE\<close> on a table with a
  primary key removes the row of that key and appends the new one; the table
  \<^verbatim>\<open>backups\<close> has only its autoincrement key, so every insertion appends.
  Each method first checks the handle (\<^verbatim>\<open>if (!this.db) throw\<close>) and then runs
  its statement, which can fail. Every method's own \<^verbatim>\<open>catch\<close> logs and rethrows.
\<close>

definition db_check :: "unit io" where
  "db_check w = (if db_open w then (Inr (), w) else (Inl NotInitialized, w))"

definition sql_run :: "string \<Rightarrow> string \<Rightarrow> unit io" where
  "sql_run stmt k w = (if failing (Sql stmt k) w then (Inl StoreFailure, w) else (Inr (), w))"

text \<open>
  \<^verbatim>\<open>init\<close>: creates the directory of the database file, opens the handle and
  creates the tables if they do not exist.
\<close>

definition db_init :: "env \<Rightarrow> unit io" where
  "db_init e =
     io_bind (mkdir (join (cwd e) ''db'')) (\<lambda>_.
     io_bind (sql_run ''init'' []) (\<lambda>_ w. (Inr (), w\<lparr>db_open := True\<rparr>)))"

definition addFile :: "FileInfo \<Rightarrow> unit io" where
  "addFile file =
     io_bind db_check (\<lambda>_.
     io_bind (sql_run ''addFile'' (f_path file)) (\<lambda>_ w.
       (Inr (), w\<lparr>files := filter (\<lambda>r. f_path r \<noteq> f_path file) (files w) @ [file],
                   log := log w @ [FileRowAdded (f_path file)]\<rparr>)))"

definition getFile :: "path \<Rightarrow> (FileInfo option) io" where
  "getFile p =
     io_bind db_check (\<lambda>_.
     io_bind (sql_run ''getFile'' p) (\<lambda>_ w.
       (Inr (List.find (\<lambda>r. f_path r = p) (files w)), w)))"

definition deleteFile :: "path \<Rightarrow> unit io" where
  "deleteFile p =
     io_bind db_check (\<lambda>_.
     io_bind (sql_run ''deleteFile'' p) (\<lambda>_ w.
       (Inr (), w\<lparr>files := filter (\<lambda>r. f_path r \<noteq> p) (files w),
                   log := log w @ [FileRowDeleted p]\<rparr>)))"

text \<open>\<^verbatim>\<open>timestamp || Date.now()\<close>: an absent and a zero timestamp read the clock.\<close>

definition updateFileAccess :: "path \<Rightarrow> nat option \<Rightarrow> unit io" where
  "updateFileAccess p timestamp =
     io_bind db_check (\<lambda>_.
     io_bind (case timestamp of None \<Rightarrow> Date_now
              | Some t \<Rightarrow> if t = 0 then Date_now else io_return t) (\<lambda>t.
     io_bind (sql_run ''updateFileAccess'' p) (\<lambda>_ w.
       (Inr (), w\<lparr>files := map (\<lambda>r. if f_path r = p then r\<lparr>lastAccessed := t\<rparr> else r) (files w),
                   log := log w @ [FileAccessUpdated p t]\<rparr>))))"

definition getFilesByDate :: "int \<Rightarrow> (FileInfo list) io" where
  "getFilesByDate cutoffTime =
     io_bind db_check (\<lambda>_.
     io_bind (sql_run ''getFilesByDate'' []) (\<lambda>_ w.
       (Inr (filter (\<lambda>r. int (lastAccessed r) < cutoffTime) (files w)), w)))"

definition getAllFiles :: "(FileInfo list) io" where
  "getAllFiles =
     io_bind db_check (\<lambda>_.
     io_bind (sql_run ''getAllFiles'' []) (\<lambda>_ w. (Inr (files w), w)))"

definition addBackup :: "BackupInfo \<Rightarrow> unit io" where
  "addBackup backup =
     io_bind db_check (\<lambda>_.
     io_bind (sql_run ''addBackup'' (backupPath backup)) (\<lambda>_ w.
       (Inr (), w\<lparr>backups := backups w @ [backup],
                   log := log w @ [BackupRowAdded (originalPath backup) (backupPath backup)]\<rparr>)))"

text \<open>
  \<^verbatim>\<open>ORDER BY backup_time DESC\<close>: rows of equal time are returned in row order.
  An empty \<^verbatim>\<open>originalPath\<close> is falsy and selects every row.
\<close>

definition newestFirst :: "BackupInfo list \<Rightarrow> BackupInfo list" where
  "newestFirst bs = sort_key (\<lambda>b. - int (createdAt b)) bs"

definition getBackups :: "path option \<Rightarrow> (BackupInfo list) io" where
  "getBackups orig =
     io_bind db_check (\<lambda>_.
     io_bind (sql_run ''getBackups'' []) (\<lambda>_ w.
       (Inr (newestFirst
          (case orig of
             None \<Rightarrow> backups w
           | Some p \<Rightarrow> if p = [] then backups w
                       else filter (\<lambda>b. originalPath b = p) (backups w))), w)))"

definition removeBackup :: "path \<Rightarrow> unit io" where
  "removeBackup bp =
     io_bind db_check (\<lambda>_.
     io_bind (sql_run ''removeBackup'' bp) (\<lambda>_ w.
       (Inr (), w\<lparr>backups := filter (\<lambda>b. backupPath b \<noteq> bp) (backups w),
                   log := log w @ [BackupRowRemoved bp]\<rparr>)))"

definition addDeletedFile :: "path \<Rightarrow> path \<Rightarrow> nat \<Rightarrow> unit io" where
  "addDeletedFile p bp sz =
     io_bind db_check (\<lambda>_.
     io_bind Date_now (\<lambda>t.
     io_bind (sql_run ''addDeletedFile'' p) (\<lambda>_ w.
       (Inr (), w\<lparr>deleted_files := filter (\<lambda>r. d_path r \<noteq> p) (deleted_files w) @
                     [\<lparr>d_path = p, deletedAt = t, d_backupPath = bp, d_size = sz\<rparr>],
                   log := log w @ [MarkerAdded p bp]\<rparr>))))"

definition getRecentlyDeleted :: "nat \<Rightarrow> (DeletedFileInfo list) io" where
  "getRecentlyDeleted limit =
     io_bind db_check (\<lambda>_.
     io_bind (sql_run ''getRecentlyDeleted'' []) (\<lambda>_ w.
       (Inr (take limit (sort_key (\<lambda>r. - int (deletedAt r)) (deleted_files w))), w)))"

definition removeFromDeletedFiles :: "path \<Rightarrow> unit io" where
  "removeFromDeletedFiles p =
     io_bind db_check (\<lambda>_.
     io_bind (sql_run ''removeFromDeletedFiles'' p) (\<lambda>_ w.
       (Inr (), w\<lparr>deleted_files := filter (\<lambda>r. d_path r \<noteq> p) (deleted_files w),
                   log := log w @ [MarkerRemoved p]\<rparr>)))"

text \<open>\<^verbatim>\<open>await this.db?.run('VACUUM')\<close>: no check of the handle.\<close>

definition vacuum :: "unit io" where
  "vacuum w =
     (if \<not> db_open w then (Inr (), w)
      else io_bind (sql_run ''vacuum'' []) (\<lambda>_. emit Vacuumed) w)"

definition getSetting :: "string \<Rightarrow> (string option) io" where
  "getSetting k =
     io_bind db_check (\<lambda>_.
     io_bind (sql_run ''getSetting'' k) (\<lambda>_ w.
       (Inr (map_option fst (map_of (settings w) k)), w)))"

definition setSetting :: "string \<Rightarrow> string \<Rightarrow> unit io" where
  "setSetting k v =
     io_bind db_check (\<lambda>_.
     io_bind Date_now (\<lambda>t.
     io_bind (sql_run ''setSetting'' k) (\<lambda>_ w.
       (Inr (), w\<lparr>settings := AList.update k (v, t) (settings w),
                   log := log w @ [SettingSet k v]\<rparr>))))"

text \<open>
  \<^verbatim>\<open>lastCleanupTime ? parseInt(lastCleanupTime, 10) : 0\<close>: a missing and an empty
  value give zero; \<open>None\<close> is \<^verbatim>\<open>NaN\<close>.
\<close>

definition getLastCleanupTime :: "(int option) io" where
  "getLastCleanupTime =
     io_bind (getSetting ''lastCleanupTime'') (\<lambda>v.
       io_return (case v of None \<Rightarrow> Some 0
                  | Some s \<Rightarrow> if s = [] then Some 0 else parseInt True s))"

definition updateLastCleanupTime :: "unit io" where
  "updateLastCleanupTime =
     io_bind Date_now (\<lambda>t. setSetting ''lastCleanupTime'' (show_nat t))"

section \<open>CacheManager\<close>

definition cache_init :: "env \<Rightarrow> unit io" where
  "cache_init e = io_bind (mkdir (cacheDir (CONFIG e))) (\<lambda>_. db_init e)"

definition getCachePath :: "env \<Rightarrow> path \<Rightarrow> path io" where
  "getCachePath e orig =
     io_bind Date_now (\<lambda>t.
       io_return (join (cacheDir (CONFIG e)) (safePath orig @ ''_'' @ show_nat t)))"

definition findCacheFile :: "env \<Rightarrow> path \<Rightarrow> (path option) io" where
  "findCacheFile e orig =
     io_bind (\<lambda>w. if existsSync (cacheDir (CONFIG e)) w then readdir (cacheDir (CONFIG e)) w
                  else (Inr [], w)) (\<lambda>names w.
       (Inr (List.find (\<lambda>f. existsSync f w)
               (map (join (cacheDir (CONFIG e)))
                  (filter (\<lambda>f. startsWith f (safePath orig @ ''_'')) names))), w))"

definition addToCache :: "env \<Rightarrow> path \<Rightarrow> nat \<Rightarrow> path io" where
  "addToCache e orig sz =
     io_bind (getCachePath e orig) (\<lambda>cachePath.
     io_bind (mkdir (dirname cachePath)) (\<lambda>_.
     io_bind (copyFile orig cachePath) (\<lambda>_.
     io_bind Date_now (\<lambda>t.
     io_bind (addFile \<lparr>f_path = orig, f_size = sz, f_mtime = None, lastAccessed = t\<rparr>) (\<lambda>_.
     io_return cachePath)))))"

definition getFromCache :: "env \<Rightarrow> path \<Rightarrow> (path option) io" where
  "getFromCache e orig =
     io_bind (getFile orig) (\<lambda>file.
       case file of
         None \<Rightarrow> io_return None
       | Some _ \<Rightarrow>
           io_bind (findCacheFile e orig) (\<lambda>found.
           io_bind
             (case found of
                Some cachePath \<Rightarrow> io_return (Some cachePath)
              | None \<Rightarrow>
                  io_bind (getCachePath e orig) (\<lambda>cachePath.
                  io_bind (mkdir (dirname cachePath)) (\<lambda>_.
                  io_catch
                    (io_bind (copyFile orig cachePath) (\<lambda>_. io_return (Some cachePath)))
                    (\<lambda>err. if err = ENOENT
                            then io_bind (deleteFile orig) (\<lambda>_. io_return None)
                            else io_throw err))))
             (\<lambda>r. case r of
                None \<Rightarrow> io_return None
              | Some cachePath \<Rightarrow>
                  io_bind (updateFileAccess orig None) (\<lambda>_.
                  io_return (Some cachePath)))))"

definition removeFromCache :: "path \<Rightarrow> unit io" where
  "removeFromCache orig =
     io_bind (getFile orig) (\<lambda>file.
       case file of None \<Rightarrow> io_return () | Some _ \<Rightarrow> deleteFile orig)"

definition deleteFromCache :: "env \<Rightarrow> path \<Rightarrow> unit io" where
  "deleteFromCache e orig =
     io_bind (findCacheFile e orig) (\<lambda>found w.
       case found of
         None \<Rightarrow> (Inr (), w)
       | Some cachePath \<Rightarrow> if existsSync cachePath w then unlink cachePath w else (Inr (), w))"

text \<open>
  \<^verbatim>\<open>cleanup(maxAge?)\<close>: one \<^verbatim>\<open>try\<close> around the whole loop, rethrowing.
\<close>

definition cleanup_item :: "env \<Rightarrow> FileInfo \<Rightarrow> unit io" where
  "cleanup_item e file =
     io_bind (getCachePath e (f_path file)) (\<lambda>cachePath.
     io_bind (\<lambda>w. if existsSync cachePath w then unlink cachePath w else (Inr (), w)) (\<lambda>_.
     deleteFile (f_path file)))"

definition cleanup :: "env \<Rightarrow> int option \<Rightarrow> unit io" where
  "cleanup e maxAge =
     io_bind Date_now (\<lambda>t.
     io_bind (getFilesByDate
               (int t - (case maxAge of None \<Rightarrow> int (cacheExpirationTime (CONFIG e))
                         | Some a \<Rightarrow> a))) (\<lambda>oldFiles.
     forEach (cleanup_item e) oldFiles))"

text \<open>
  \<^verbatim>\<open>files.sort((a, b) => b.lastAccessed - a.lastAccessed)\<close>: the sort of an array
  is stable.
\<close>

definition getRecentFiles :: "nat \<Rightarrow> (FileInfo list) io" where
  "getRecentFiles limit =
     io_bind getAllFiles (\<lambda>fls.
       io_return (take limit (sort_key (\<lambda>r. - int (lastAccessed r)) fls)))"

section \<open>CleanupManager\<close>

definition cleanupCache_item :: "env \<Rightarrow> nat \<Rightarrow> string \<Rightarrow> unit io" where
  "cleanupCache_item e t name =
     io_bind (stat (join (cacheDir (CONFIG e)) name)) (\<lambda>(sz, mtimeMs).
       if int t - int mtimeMs > int (maxCacheAge (CONFIG e))
       then unlink (join (cacheDir (CONFIG e)) name)
       else io_return ())"

definition cleanupCache :: "env \<Rightarrow> unit io" where
  "cleanupCache e =
     io_catch
       (io_bind (readdir (cacheDir (CONFIG e))) (\<lambda>names.
        io_bind Date_now (\<lambda>t.
        forEach (cleanupCache_item e t) names)))
       (\<lambda>_. io_return ())"

text \<open>
  \<^verbatim>\<open>cleanupBackups\<close>: the rows after the first \<^verbatim>\<open>maxBackupSets\<close> of the
  newest-first order are examined; each in a \<^verbatim>\<open>try\<close> of its own.
\<close>

definition cleanupBackups_item :: "env \<Rightarrow> nat \<Rightarrow> BackupInfo \<Rightarrow> unit io" where
  "cleanupBackups_item e t backup =
     io_catch
       (if int t - int (createdAt backup) > int (maxBackupAge (CONFIG e))
        then io_bind (unlink (backupPath backup)) (\<lambda>_. removeBackup (backupPath backup))
        else io_return ())
       (\<lambda>_. io_return ())"

definition cleanupBackups :: "env \<Rightarrow> unit io" where
  "cleanupBackups e =
     io_catch
       (io_bind (getBackups None) (\<lambda>bs.
        io_bind Date_now (\<lambda>t.
        forEach (cleanupBackups_item e t)
          (drop (maxBackupSets (CONFIG e)) (newestFirst bs)))))
       (\<lambda>_. io_return ())"

definition vacuumDatabase :: "unit io" where
  "vacuumDatabase = io_catch vacuum (\<lambda>_. io_return ())"

definition run_cleanup :: "env \<Rightarrow> unit io" where
  "run_cleanup e =
     io_bind (cleanupCache e) (\<lambda>_.
     io_bind (cleanupBackups e) (\<lambda>_.
     vacuumDatabase))"

text \<open>
  \<^verbatim>\<open>if (force || (now - lastCleanupTime >= CONFIG.cacheCleanupInterval))\<close>: a
  comparison with \<^verbatim>\<open>NaN\<close> is false.
\<close>

definition cleanupDue :: "env \<Rightarrow> bool \<Rightarrow> nat \<Rightarrow> int option \<Rightarrow> bool" where
  "cleanupDue e force t lastCleanupTime =
     (force \<or> (case lastCleanupTime of
                 None \<Rightarrow> False
               | Some l \<Rightarrow> int t - l \<ge> int (cacheCleanupInterval (CONFIG e))))"

definition checkAndCleanup :: "env \<Rightarrow> bool \<Rightarrow> unit io" where
  "checkAndCleanup e force =
     io_bind Date_now (\<lambda>t.
     io_bind getLastCleanupTime (\<lambda>lastCleanupTime.
       if cleanupDue e force t lastCleanupTime
       then io_bind (run_cleanup e) (\<lambda>_. updateLastCleanupTime)
       else io_return ()))"

section \<open>The configuration of the repository\<close>

text \<open>\<^verbatim>\<open>CONFIG\<close> as \<^verbatim>\<open>src/config/index.ts\<close> builds it from the home directory.\<close>

definition CONFIG_of :: "path \<Rightarrow> config" where
  "CONFIG_of h =
     \<lparr>targetDir = join h ''Desktop'',
      screenshotDir = join h ''Desktop'',
      cacheDir = join (join (join h ''.config'') ''screen-cut'') ''cache'',
      maxCacheAge = 7 * 24 * 60 * 60 * 1000,
      cacheCleanupInterval = 24 * 60 * 60 * 1000,
      cacheExpirationTime = 7 * 24 * 60 * 60 * 1000,
      maxBackupAge = 30 * 24 * 60 * 60 * 1000,
      maxBackupSets = 10\<rparr>"

text \<open>\<^verbatim>\<open>new Date().toISOString().split('T')[0]\<close> at the clock reading \<open>t\<close>.\<close>

definition isoDate :: "env \<Rightarrow> nat \<Rightarrow> string" where
  "isoDate e t = takeWhile (\<lambda>c. c \<noteq> CHR ''T'') (toISOString e t)"

section \<open>The delete command\<close>

record DeleteResult =
  deleted :: "path list"
  failed :: "(path \<times> error) list"
  backupDir :: path

definition createBackup :: "path \<Rightarrow> path \<Rightarrow> path io" where
  "createBackup filePath bdir =
     io_bind (copyFile filePath (join bdir (basename filePath))) (\<lambda>_.
     io_return (join bdir (basename filePath)))"

text \<open>The body of the loop of \<^verbatim>\<open>deleteFiles\<close>, with its \<^verbatim>\<open>try\<close>.\<close>

definition deleteFiles_item :: "path \<Rightarrow> path \<Rightarrow> DeleteResult \<Rightarrow> DeleteResult io" where
  "deleteFiles_item bdir file results =
     io_catch
       (\<lambda>w. if \<not> existsSync file w
            then io_bind (emit (Console (SkippingNonExistent (basename file))))
                   (\<lambda>_. io_return results) w
            else
              io_bind (stat file) (\<lambda>(sz, mt).
              io_bind (createBackup file bdir) (\<lambda>bp.
              io_bind Date_now (\<lambda>t.
              io_bind (addBackup \<lparr>originalPath = file, backupPath = bp, b_size = sz,
                                  createdAt = t\<rparr>) (\<lambda>_.
              io_bind (unlink file) (\<lambda>_.
              io_bind (addDeletedFile file bp sz) (\<lambda>_.
              io_bind (removeFromCache file) (\<lambda>_.
              io_return (results\<lparr>deleted := deleted results @ [file]\<rparr>)))))))) w)
       (\<lambda>err. io_return (results\<lparr>failed := failed results @ [(file, err)]\<rparr>))"

fun deleteFiles_loop :: "path \<Rightarrow> path list \<Rightarrow> DeleteResult \<Rightarrow> DeleteResult io" where
  "deleteFiles_loop bdir [] results = io_return results"
| "deleteFiles_loop bdir (file # rest) results =
     io_bind (deleteFiles_item bdir file results) (deleteFiles_loop bdir rest)"

definition deleteFiles :: "env \<Rightarrow> path list \<Rightarrow> DeleteResult io" where
  "deleteFiles e fls =
     io_bind (db_init e) (\<lambda>_.
     io_bind (cache_init e) (\<lambda>_.
     io_bind Date_now (\<lambda>t.
     io_bind (mkdir (join (join (cwd e) ''backups'') (isoDate e t))) (\<lambda>_.
     deleteFiles_loop (join (join (cwd e) ''backups'') (isoDate e t)) fls
       \<lparr>deleted = [], failed = [], backupDir = join (join (cwd e) ''backups'') (isoDate e t)\<rparr>))))"

text \<open>
  \<^verbatim>\<open>listFiles\<close> prints; for a file without modification time it reads the clock
  (\<^verbatim>\<open>new Date(file.mtime || Date.now())\<close>).
\<close>

definition listFiles :: "FileInfo list \<Rightarrow> unit io" where
  "listFiles fls =
     forEach (\<lambda>file. case f_mtime file of
                        None \<Rightarrow> io_bind Date_now (\<lambda>_. io_return ())
                      | Some m \<Rightarrow> if m = [] then io_bind Date_now (\<lambda>_. io_return ())
                                  else io_return ()) fls"

text \<open>The body of the loop of \<^verbatim>\<open>deleteCommand\<close>; the counters are its state.\<close>

definition deleteCommand_item :: "path \<Rightarrow> FileInfo \<Rightarrow> nat \<times> nat \<Rightarrow> (nat \<times> nat) io" where
  "deleteCommand_item bdir file counts =
     io_catch
       (io_bind (mkdir bdir) (\<lambda>_.
        io_bind (copyFile (f_path file) (join bdir (basename (f_path file)))) (\<lambda>_.
        io_bind Date_now (\<lambda>t.
        io_bind (addBackup \<lparr>originalPath = f_path file,
                            backupPath = join bdir (basename (f_path file)),
                            b_size = f_size file, createdAt = t\<rparr>) (\<lambda>_.
        io_bind (unlink (f_path file)) (\<lambda>_.
        io_return (fst counts + 1, snd counts)))))))
       (\<lambda>_. io_return (fst counts, snd counts + 1))"

fun deleteCommand_loop :: "path \<Rightarrow> FileInfo list \<Rightarrow> nat \<times> nat \<Rightarrow> (nat \<times> nat) io" where
  "deleteCommand_loop bdir [] counts = io_return counts"
| "deleteCommand_loop bdir (file # rest) counts =
     io_bind (deleteCommand_item bdir file counts) (deleteCommand_loop bdir rest)"

text \<open>
  \<^verbatim>\<open>count ? parseInt(count) : 1\<close>; \<^verbatim>\<open>process.exit(1)\<close> ends the run, and
  so does every exception, through the outer \<^verbatim>\<open>catch\<close>.
\<close>

definition requestedCount :: "string option \<Rightarrow> int option" where
  "requestedCount count =
     (case count of None \<Rightarrow> Some 1 | Some s \<Rightarrow> if s = [] then Some 1 else parseInt False s)"

definition deleteCommand_run :: "env \<Rightarrow> FileInfo list \<Rightarrow> int \<Rightarrow> unit io" where
  "deleteCommand_run e fls requested =
     (let actualCount = min (nat requested) (length fls);
          filesToDelete = take actualCount fls
      in
        io_bind (emit (Console (PreparingToDelete (length filesToDelete)
                   (if int actualCount < requested then Some (nat requested) else None)))) (\<lambda>_.
        io_bind (listFiles filesToDelete) (\<lambda>_.
        io_bind Date_now (\<lambda>t.
        io_bind (deleteCommand_loop (join (join (cwd e) ''backups'') (isoDate e t))
                   filesToDelete (0, 0)) (\<lambda>counts.
        io_bind (emit (Console (DeletionSummary (fst counts) (snd counts)))) (\<lambda>_.
          if int actualCount < requested
          then emit (Console (OnlyAvailable actualCount (nat requested)))
          else io_return ()))))))"

definition deleteCommand :: "env \<Rightarrow> string option \<Rightarrow> unit io" where
  "deleteCommand e count =
     io_catch
       (io_bind (db_init e) (\<lambda>_.
        io_bind (cache_init e) (\<lambda>_.
        io_bind (getRecentFiles 5) (\<lambda>fls.
          if fls = [] then emit (Console NoScreenshotsToDelete)
          else
            case requestedCount count of
              None \<Rightarrow> io_bind (emit (Console InvalidNumber)) (\<lambda>_. io_throw (Exit 1))
            | Some requested \<Rightarrow>
                if requested \<le> 0
                then io_bind (emit (Console InvalidNumber)) (\<lambda>_. io_throw (Exit 1))
                else deleteCommand_run e fls requested))))
       (\<lambda>_. io_throw (Exit 1))"

section \<open>The restore command\<close>

record RestoreResult =
  restored :: "path list"
  not_restored :: "string list"

definition findInTrash :: "env \<Rightarrow> string \<Rightarrow> (path option) io" where
  "findInTrash e filename w =
     (if \<not> existsSync (join (home e) ''.Trash'') w then (Inr None, w)
      else
        io_catch
          (io_bind (readdir (join (home e) ''.Trash'')) (\<lambda>names.
             io_return (map_option (join (join (home e) ''.Trash''))
                          (List.find (\<lambda>f. f = filename) names))))
          (\<lambda>_. io_return None) w)"

text \<open>
  The statements both recovery attempts share: copy to the target, register the target in
  the cache and the index, remove the marker.
\<close>

definition restore_from :: "env \<Rightarrow> path \<Rightarrow> path \<Rightarrow> path \<Rightarrow> unit io" where
  "restore_from e src target marker =
     io_bind (copyFile src target) (\<lambda>_.
     io_bind (stat target) (\<lambda>(sz, mt).
     io_bind (addToCache e target sz) (\<lambda>_.
     io_bind Date_now (\<lambda>t1.
     io_bind Date_now (\<lambda>t2.
     io_bind (addFile \<lparr>f_path = target, f_size = sz, f_mtime = Some (toISOString e t1),
                       lastAccessed = t2\<rparr>) (\<lambda>_.
     removeFromDeletedFiles marker))))))"

definition restore_item :: "env \<Rightarrow> DeletedFileInfo \<Rightarrow> RestoreResult \<Rightarrow> RestoreResult io" where
  "restore_item e file results =
     (let filename = basename (d_path file);
          target = join (targetDir (CONFIG e)) filename
      in
        io_bind
          (\<lambda>w. if d_backupPath file \<noteq> [] \<and> existsSync (d_backupPath file) w
               then io_catch
                      (io_bind (restore_from e (d_backupPath file) target (d_path file))
                         (\<lambda>_. io_return True))
                      (\<lambda>_. io_return False) w
               else (Inr False, w))
          (\<lambda>done.
             if done then io_return (results\<lparr>restored := restored results @ [target]\<rparr>)
             else
               io_bind (findInTrash e filename) (\<lambda>trashPath.
                 case trashPath of
                   Some tp \<Rightarrow>
                     io_catch
                       (io_bind (restore_from e tp target (d_path file)) (\<lambda>_.
                          io_return (results\<lparr>restored := restored results @ [target]\<rparr>)))
                       (\<lambda>_. io_return
                              (results\<lparr>not_restored := not_restored results @ [filename]\<rparr>))
                 | None \<Rightarrow>
                     io_return (results\<lparr>not_restored := not_restored results @ [filename]\<rparr>))))"

fun restore_loop :: "env \<Rightarrow> DeletedFileInfo list \<Rightarrow> RestoreResult \<Rightarrow> RestoreResult io" where
  "restore_loop e [] results = io_return results"
| "restore_loop e (file # rest) results =
     io_bind (restore_item e file results) (restore_loop e rest)"

text \<open>Restoring from a source directory: every entry whose name is a screenshot's.\<close>

definition restore_dir_item :: "env \<Rightarrow> path \<Rightarrow> string \<Rightarrow> RestoreResult \<Rightarrow> RestoreResult io"
  where
  "restore_dir_item e src name results =
     (if isScreenshot e name
      then
        io_catch
          (io_bind (copyFile (join src name) (join (targetDir (CONFIG e)) name)) (\<lambda>_.
           io_bind (stat (join (targetDir (CONFIG e)) name)) (\<lambda>(sz, mt).
           io_bind (addToCache e (join (targetDir (CONFIG e)) name) sz) (\<lambda>_.
           io_bind Date_now (\<lambda>t.
           io_bind (addFile \<lparr>f_path = join (targetDir (CONFIG e)) name, f_size = sz,
                             f_mtime = Some (toISOString e mt), lastAccessed = t\<rparr>) (\<lambda>_.
           io_return (results\<lparr>restored := restored results @
                                 [join (targetDir (CONFIG e)) name]\<rparr>)))))))
          (\<lambda>_. io_return (results\<lparr>not_restored := not_restored results @ [name]\<rparr>))
      else io_return results)"

fun restore_dir_loop :: "env \<Rightarrow> path \<Rightarrow> string list \<Rightarrow> RestoreResult \<Rightarrow> RestoreResult io"
  where
  "restore_dir_loop e src [] results = io_return results"
| "restore_dir_loop e src (name # rest) results =
     io_bind (restore_dir_item e src name results) (restore_dir_loop e src rest)"

definition restore :: "env \<Rightarrow> path option \<Rightarrow> bool \<Rightarrow> RestoreResult io" where
  "restore e source list_only =
     io_bind (\<lambda>w. if \<not> existsSync (targetDir (CONFIG e)) w then mkdir (targetDir (CONFIG e)) w
                  else (Inr (), w)) (\<lambda>_.
     io_bind (db_init e) (\<lambda>_.
     io_bind (cache_init e) (\<lambda>_.
       if list_only
       then io_bind (getBackups None) (\<lambda>_. io_return \<lparr>restored = [], not_restored = []\<rparr>)
       else
         io_bind (\<lambda>w. (Inr (case source of None \<Rightarrow> None
                             | Some s \<Rightarrow> if s \<noteq> [] \<and> existsSync s w then Some s else None), w))
           (\<lambda>dir.
              case dir of
                Some s \<Rightarrow>
                  io_bind (readdir s) (\<lambda>names.
                    restore_dir_loop e s names \<lparr>restored = [], not_restored = []\<rparr>)
              | None \<Rightarrow>
                  io_bind (getRecentlyDeleted 50) (\<lambda>recentlyDeleted.
                    restore_loop e recentlyDeleted \<lparr>restored = [], not_restored = []\<rparr>)))))"

section \<open>Concrete worlds\<close>

text \<open>
  An environment with the repository's configuration for the home directory
  \<^verbatim>\<open>/h\<close>, and the worlds the examples below run in.
\<close>

definition ex_env :: env where
  "ex_env =
     \<lparr>cwd = ''/w'', home = ''/h'',
      toISOString = (\<lambda>t. ''2026-01-01T00:00:00.000Z''),
      isScreenshot = (\<lambda>n. True),
      CONFIG = CONFIG_of ''/h''\<rparr>"

text \<open>
  The directories of a set-up installation exist, the database is open and empty, and the
  clock stands still (\<open>ticks = []\<close>).
\<close>

definition ex_dirs :: "(path \<times> node) list" where
  "ex_dirs =
     [(''/h/Desktop'', Dir 0), (''/h/Downloads'', Dir 0),
      (''/h/.config/screen-cut/cache'', Dir 0), (''/w/db'', Dir 0),
      (''/w/backups/2026-01-01'', Dir 0)]"

definition empty_world :: world where
  "empty_world =
     \<lparr>fs = ex_dirs, db_open = True, files = [], backups = [], deleted_files = [],
      settings = [], now = 1000, ticks = [], faults = [], log = []\<rparr>"

text \<open>One screenshot on the desktop.\<close>

definition w_still :: world where
  "w_still = empty_world\<lparr>fs := ex_dirs @ [(''/h/Desktop/a.png'', File [1, 2, 3] 5)]\<rparr>"

text \<open>
  The cache directory exists; the last cleanup was recorded at time 1000 and the clock
  reads one millisecond less than a full cleanup interval after it.
\<close>

definition w_gate :: world where
  "w_gate = empty_world
     \<lparr>settings := [(''lastCleanupTime'', (''1000'', 1000))],
      now := 86400999, ticks := [1]\<rparr>"

text \<open>No cleanup was ever recorded.\<close>

definition w_due :: world where
  "w_due = empty_world\<lparr>now := 86401000\<rparr>"


section \<open>Auxiliary notions\<close>

text \<open>
  What the cleanup operations leave alone: the database handle and the injected
  failures; and the clock never goes back.
\<close>

definition stable :: "world \<Rightarrow> world \<Rightarrow> bool" where
  "stable w w' = (db_open w' = db_open w \<and> faults w' = faults w \<and> now w \<le> now w')"

definition preserves :: "'a io \<Rightarrow> bool" where
  "preserves m = (\<forall>w. stable w (snd (m w)))"

text \<open>A tracked file whose origin is gone, and a tracked file whose origin exists.\<close>

definition w_stale :: world where
  "w_stale = empty_world
     \<lparr>files := [\<lparr>f_path = ''/h/Desktop/gone.png'', f_size = 3, f_mtime = None,
                  lastAccessed = 7\<rparr>]\<rparr>"

definition w_tracked :: world where
  "w_tracked = w_still
     \<lparr>files := [\<lparr>f_path = ''/h/Desktop/a.png'', f_size = 3, f_mtime = None,
                  lastAccessed = 7\<rparr>]\<rparr>"

text \<open>
  Ten days after its last access, a tracked file with its cache artifact of time 1000;
  and two such tracked files where removing the first one's row fails.
\<close>

definition w_expired :: world where
  "w_expired = empty_world
     \<lparr>fs := ex_dirs @ [(''/h/Desktop/a.png'', File [1, 2, 3] 5),
                       (''/h/.config/screen-cut/cache/_h_Desktop_a.png_1000'', File [1, 2, 3] 1000)],
      files := [\<lparr>f_path = ''/h/Desktop/a.png'', f_size = 3, f_mtime = None,
                  lastAccessed = 1000\<rparr>],
      now := 864001000\<rparr>"

definition w_two_expired :: world where
  "w_two_expired = empty_world
     \<lparr>files := [\<lparr>f_path = ''/h/Desktop/a.png'', f_size = 3, f_mtime = None, lastAccessed = 1000\<rparr>,
                 \<lparr>f_path = ''/h/Desktop/b.png'', f_size = 3, f_mtime = None, lastAccessed = 1000\<rparr>],
      now := 864001000,
      faults := [Sql ''deleteFile'' ''/h/Desktop/a.png'']\<rparr>"












text \<open>
  A tracked screenshot outside the desktop; the world after deleting it, and the world
  after restoring what was deleted.
\<close>

definition w_downloads :: world where
  "w_downloads = empty_world
     \<lparr>fs := ex_dirs @ [(''/h/Downloads/a.png'', File [1, 2, 3] 5)],
      files := [\<lparr>f_path = ''/h/Downloads/a.png'', f_size = 3, f_mtime = None,
                  lastAccessed = 7\<rparr>]\<rparr>"

definition w_downloads_deleted :: world where
  "w_downloads_deleted = snd (deleteFiles ex_env [''/h/Downloads/a.png''] w_downloads)"

definition w_downloads_restored :: world where
  "w_downloads_restored = snd (restore ex_env None False w_downloads_deleted)"

definition w_desktop_deleted :: world where
  "w_desktop_deleted = snd (deleteFiles ex_env [''/h/Desktop/a.png''] w_tracked)"

definition w_desktop_restored :: world where
  "w_desktop_restored = snd (restore ex_env None False w_desktop_deleted)"

section \<open>Basic facts\<close>

lemmas io_defs = io_bind_def io_return_def io_throw_def io_catch_def emit_def failing_def

lemmas fs_defs =
  existsSync_def is_file_def is_dir_def copyFile_def unlink_def mkdir_def mkdirs_def stat_def
  readdir_def

lemmas db_defs =
  db_check_def sql_run_def db_init_def addFile_def getFile_def deleteFile_def
  updateFileAccess_def getFilesByDate_def getAllFiles_def addBackup_def getBackups_def
  removeBackup_def addDeletedFile_def getRecentlyDeleted_def removeFromDeletedFiles_def
  vacuum_def getSetting_def setSetting_def getLastCleanupTime_def updateLastCleanupTime_def

lemmas cache_defs = getFromCache_def findCacheFile_def getCachePath_def addToCache_def
  removeFromCache_def deleteFromCache_def cleanup_def cleanup_item_def getRecentFiles_def
  child_name_def startsWith_def List.map_filter_simps

lemmas ex_defs = ex_env_def CONFIG_of_def empty_world_def ex_dirs_def join_def safePath_def

subsection \<open>Decimal numerals\<close>

lemma show_nat_nonempty: "show_nat n \<noteq> []"
  by (subst show_nat.simps) simp

lemma char_of_digit_inj:
  assumes "a < 10" and "b < 10" and "(char_of (48 + a) :: char) = char_of (48 + b)"
  shows "a = (b::nat)"
proof -
  have "(of_char (char_of (48 + a) :: char) :: nat) = of_char (char_of (48 + b) :: char)"
    using assms(3) by simp
  then have "(48 + a) mod 256 = (48 + b) mod 256" by (simp add: of_char_of)
  with assms(1,2) show ?thesis by simp
qed

lemma show_nat_small: "n < 10 \<Longrightarrow> show_nat n = [char_of (48 + n)]"
  by (subst show_nat.simps) simp

lemma show_nat_large:
  "\<not> n < 10 \<Longrightarrow> show_nat n = show_nat (n div 10) @ [char_of (48 + n mod 10)]"
  by (subst show_nat.simps) simp

lemma show_nat_inj: "show_nat a = show_nat b \<Longrightarrow> a = b"
proof (induction a arbitrary: b rule: show_nat.induct)
  case (1 n)
  show ?case
  proof (cases "n < 10")
    case nT: True
    show ?thesis
    proof (cases "b < 10")
      case True
      with nT "1.prems" show ?thesis
        by (auto simp: show_nat_small dest: char_of_digit_inj)
    next
      case False
      with nT "1.prems" show_nat_nonempty[of "b div 10"] show ?thesis
        by (auto simp: show_nat_small show_nat_large)
    qed
  next
    case nF: False
    show ?thesis
    proof (cases "b < 10")
      case True
      with nF "1.prems" show_nat_nonempty[of "n div 10"] show ?thesis
        by (auto simp: show_nat_small show_nat_large)
    next
      case bF: False
      from nF bF "1.prems" have e1: "show_nat (n div 10) = show_nat (b div 10)"
        and e2: "(char_of (48 + n mod 10) :: char) = char_of (48 + b mod 10)"
        by (auto simp: show_nat_large)
      from "1.IH"[OF nF e1] have "n div 10 = b div 10" .
      moreover from e2 have "n mod 10 = b mod 10" by (auto dest: char_of_digit_inj)
      ultimately show ?thesis by (metis div_mult_mod_eq)
    qed
  qed
qed

lemma show_nat_1000: "show_nat 1000 = ''1000''"
  by code_simp

lemma show_nat_2000: "show_nat 2000 = ''2000''"
  by code_simp

subsection \<open>Paths\<close>


subsection \<open>The index of tracked files\<close>

lemma find_replaced_row:
  "List.find (\<lambda>r. f_path r = p) (filter (\<lambda>r. f_path r \<noteq> p) xs @ [x\<lparr>f_path := p\<rparr>])
     = Some (x\<lparr>f_path := p\<rparr>)"
  by (induction xs) auto

section \<open>Cache artifact names (claim C10)\<close>

lemma addToCache_result:
  assumes "addToCache e p sz w = (Inr c, w')"
  shows "c = join (cacheDir (CONFIG e)) (safePath p @ ''_'' @ show_nat (now w))"
  using assms
  by (auto simp: addToCache_def getCachePath_def io_defs Date_now_def
      split: prod.splits sum.splits)

lemma addToCache_row:
  assumes "addToCache e p sz w = (Inr c, w')"
  shows "\<exists>r. List.find (\<lambda>r. f_path r = p) (files w') = Some r \<and> f_size r = sz
            \<and> now w \<le> lastAccessed r \<and> lastAccessed r \<le> now w'"
  using assms
  by (auto simp: addToCache_def getCachePath_def io_defs Date_now_def mkdir_def copyFile_def
        addFile_def db_check_def sql_run_def
        find_replaced_row[of p _ "\<lparr>f_path = p, f_size = sz, f_mtime = None, lastAccessed = t\<rparr>" for t,
          simplified]
      split: prod.splits sum.splits if_splits option.splits node.splits list.splits)

text \<open>
  C10, as the claim states it, fails: the name is the origin's safe path followed by the
  reading of the clock, so two additions of one origin within one millisecond get the
  same name. Here the clock stands still and both calls return the same path.
\<close>

theorem addToCache_same_name_counterexample:
  "fst (addToCache ex_env ''/h/Desktop/a.png'' 3 w_still)
     = Inr ''/h/.config/screen-cut/cache/_h_Desktop_a.png_1000''
   \<and> fst (addToCache ex_env ''/h/Desktop/a.png'' 3
            (snd (addToCache ex_env ''/h/Desktop/a.png'' 3 w_still)))
     = Inr ''/h/.config/screen-cut/cache/_h_Desktop_a.png_1000''"
  by (simp add: addToCache_def getCachePath_def io_defs Date_now_def fs_defs db_defs
      w_still_def ex_defs show_nat_1000 dirname_def)

text \<open>
  C10, amended: a successful \<open>addToCache\<close> returns the cache directory joined with
  the origin's safe path, an underscore and the decimal clock reading taken at the call;
  it leaves a row for the origin with the given size whose \<open>lastAccessed\<close> is a clock
  reading taken during the call; and two successful additions of the same origin whose
  clock readings differ return different names.
\<close>

theorem addToCache_name:
  assumes "addToCache e p sz w = (Inr c, w')"
  shows "c = join (cacheDir (CONFIG e)) (safePath p @ ''_'' @ show_nat (now w))
     \<and> (\<exists>r. List.find (\<lambda>r. f_path r = p) (files w') = Some r \<and> f_size r = sz
            \<and> now w \<le> lastAccessed r \<and> lastAccessed r \<le> now w')
     \<and> (\<forall>sz2 v c2 v'. addToCache e p sz2 v = (Inr c2, v') \<longrightarrow> now v \<noteq> now w \<longrightarrow> c2 \<noteq> c)"
proof (intro conjI allI impI)
  show "c = join (cacheDir (CONFIG e)) (safePath p @ ''_'' @ show_nat (now w))"
    using assms by (rule addToCache_result)
next
  show "\<exists>r. List.find (\<lambda>r. f_path r = p) (files w') = Some r \<and> f_size r = sz
            \<and> now w \<le> lastAccessed r \<and> lastAccessed r \<le> now w'"
    using assms by (rule addToCache_row)
next
  fix sz2 v c2 v'
  assume a: "addToCache e p sz2 v = (Inr c2, v')" and ne: "now v \<noteq> now w"
  from addToCache_result[OF a] addToCache_result[OF assms] ne
  show "c2 \<noteq> c" by (auto simp: join_def dest: show_nat_inj)
qed

theorem addToCache_name_witness:
  "fst (addToCache ex_env ''/h/Desktop/a.png'' 3 w_still)
     = Inr ''/h/.config/screen-cut/cache/_h_Desktop_a.png_1000''
   \<and> now (w_still\<lparr>now := 2000\<rparr>) \<noteq> now w_still
   \<and> (\<exists>c2. fst (addToCache ex_env ''/h/Desktop/a.png'' 3 (w_still\<lparr>now := 2000\<rparr>)) = Inr c2
           \<and> c2 \<noteq> ''/h/.config/screen-cut/cache/_h_Desktop_a.png_1000'')"
proof -
  obtain w1 where r1: "addToCache ex_env ''/h/Desktop/a.png'' 3 w_still
      = (Inr ''/h/.config/screen-cut/cache/_h_Desktop_a.png_1000'', w1)"
    by (simp add: addToCache_def getCachePath_def io_defs Date_now_def fs_defs db_defs
        w_still_def ex_defs show_nat_1000 dirname_def)
  obtain c2 w2 where r2:
    "addToCache ex_env ''/h/Desktop/a.png'' 3 (w_still\<lparr>now := 2000\<rparr>) = (Inr c2, w2)"
    by (simp add: addToCache_def getCachePath_def io_defs Date_now_def fs_defs db_defs
        w_still_def ex_defs show_nat_2000 dirname_def)
  have ne: "now (w_still\<lparr>now := 2000\<rparr>) \<noteq> now w_still"
    by (simp add: w_still_def empty_world_def)
  from addToCache_name[OF r1] r2 ne
  have "c2 \<noteq> ''/h/.config/screen-cut/cache/_h_Desktop_a.png_1000''" by blast
  with r1 r2 ne show ?thesis by simp
qed

section \<open>The time gate of the cleanup (claim C6)\<close>

lemma stable_refl: "stable w w" by (simp add: stable_def)
lemma stable_trans: "stable a b \<Longrightarrow> stable b c \<Longrightarrow> stable a c" by (auto simp: stable_def)

lemma preserves_return: "preserves (io_return x)" by (simp add: preserves_def io_return_def stable_def)
lemma preserves_throw: "preserves (io_throw x)" by (simp add: preserves_def io_throw_def stable_def)

lemma preserves_bind: "preserves m \<Longrightarrow> (\<And>x. preserves (f x)) \<Longrightarrow> preserves (io_bind m f)"
  unfolding preserves_def io_bind_def
  by (auto split: prod.splits sum.splits) (metis snd_conv stable_trans)+

lemma preserves_catch: "preserves m \<Longrightarrow> (\<And>x. preserves (h x)) \<Longrightarrow> preserves (io_catch m h)"
  unfolding preserves_def io_catch_def
  by (auto split: prod.splits sum.splits) (metis snd_conv stable_trans)+

lemma preserves_forEach: "(\<And>x. preserves (f x)) \<Longrightarrow> preserves (forEach f xs)"
  by (induction xs) (auto intro: preserves_return preserves_bind)

lemma preserves_prims:
  "preserves Date_now" "preserves (unlink p)" "preserves (stat p)" "preserves (readdir p)"
  "preserves (mkdir p)" "preserves (copyFile p q)" "preserves db_check" "preserves (sql_run s k)"
  "preserves (emit ev)"
  by (auto simp: preserves_def stable_def Date_now_def fs_defs io_defs db_check_def sql_run_def
      split: option.splits node.splits list.splits)

lemma preserves_upd:
  "preserves (\<lambda>w. (Inr x, w\<lparr>backups := g w, log := h w\<rparr>))"
  "preserves (\<lambda>w. (Inr x, w\<lparr>settings := g' w, log := h w\<rparr>))"
  "preserves (\<lambda>w. (Inr (y w), w))"
  by (auto simp: preserves_def stable_def)

lemmas preserves_intros = preserves_return preserves_throw preserves_bind preserves_catch
  preserves_forEach preserves_prims preserves_upd

lemma preserves_vacuum: "preserves vacuum"
proof -
  have "preserves (io_bind (sql_run ''vacuum'' []) (\<lambda>_. emit Vacuumed))"
    by (intro preserves_intros)
  then show ?thesis by (auto simp: preserves_def vacuum_def stable_refl)
qed

lemma preserves_run_cleanup: "preserves (run_cleanup e)"
  unfolding run_cleanup_def cleanupCache_def cleanupBackups_def vacuumDatabase_def
    cleanupCache_item_def cleanupBackups_item_def getBackups_def removeBackup_def
  by (auto intro!: preserves_intros preserves_vacuum split: prod.splits)

subsection \<open>Reading back a stored clock value\<close>

lemma digitVal_digit: "d < 10 \<Longrightarrow> digitVal 10 (char_of (48 + d)) = Some d"
  by (simp add: digitVal_def of_char_of Let_def)

lemma parseDigits_snoc:
  "\<forall>c\<in>set xs. digitVal r c \<noteq> None \<Longrightarrow>
   parseDigits r acc (xs @ ys) = parseDigits r (parseDigits r acc xs) ys"
  by (induction xs arbitrary: acc) (auto split: option.splits)

lemma show_nat_digits: "\<forall>c\<in>set (show_nat n). \<exists>d::nat. d < 10 \<and> c = char_of (48 + d)"
proof (induction n rule: show_nat.induct)
  case (1 n)
  show ?case
  proof (cases "n < 10")
    case True
    then show ?thesis by (auto simp: show_nat_small)
  next
    case False
    from 1[OF False]
    have ih: "\<forall>c\<in>set (show_nat (n div 10)). \<exists>d::nat. d < 10 \<and> c = char_of (48 + d)" .
    have "\<exists>d::nat. d < 10 \<and> (char_of (48 + n mod 10) :: char) = char_of (48 + d)"
      by (rule exI[of _ "n mod 10"]) simp
    with ih show ?thesis by (simp add: show_nat_large[OF False])
  qed
qed

lemma show_nat_digitVal: "\<forall>c\<in>set (show_nat n). digitVal 10 c \<noteq> None"
  using show_nat_digits[of n] by (auto simp: digitVal_digit)

lemma parseDigits_show_nat:
  "parseDigits 10 acc (show_nat n)
     = Some ((case acc of None \<Rightarrow> 0 | Some a \<Rightarrow> a) * 10 ^ length (show_nat n) + n)"
proof (induction n arbitrary: acc rule: show_nat.induct)
  case (1 n)
  show ?case
  proof (cases "n < 10")
    case True
    then show ?thesis by (simp add: show_nat_small digitVal_digit)
  next
    case False
    define a where "a = (case acc of None \<Rightarrow> 0 | Some a \<Rightarrow> a)"
    define k where "k = length (show_nat (n div 10))"
    have "parseDigits 10 acc (show_nat n)
        = parseDigits 10 (parseDigits 10 acc (show_nat (n div 10))) [char_of (48 + n mod 10)]"
      using show_nat_digitVal[of "n div 10"]
      by (simp only: show_nat_large[OF False] parseDigits_snoc)
    also have "\<dots> = parseDigits 10 (Some (a * 10 ^ k + n div 10)) [char_of (48 + n mod 10)]"
      by (simp only: "1.IH"[OF False] a_def k_def)
    also have "\<dots> = Some ((a * 10 ^ k + n div 10) * 10 + n mod 10)"
      by (simp add: digitVal_digit)
    also have "(a * 10 ^ k + n div 10) * 10 + n mod 10 = a * 10 ^ Suc k + n"
      by (simp add: algebra_simps)
    also have "Suc k = length (show_nat n)"
      by (simp only: show_nat_large[OF False] k_def) simp
    finally show ?thesis by (simp only: a_def)
  qed
qed

lemma show_nat_hd: "\<exists>d::nat. d < 10 \<and> hd (show_nat n) = char_of (48 + d)"
  using show_nat_digits[of n] show_nat_nonempty[of n] by (cases "show_nat n") auto

lemma parseInt_show_nat: "parseInt True (show_nat n) = Some (int n)"
proof -
  obtain d :: nat where d: "d < 10" "hd (show_nat n) = char_of (48 + d)"
    using show_nat_hd[of n] by blast
  have ws: "\<not> isWhiteSpace (hd (show_nat n))"
    using d by (auto simp: isWhiteSpace_def of_char_of)
  have sg: "hd (show_nat n) \<noteq> CHR ''-''" "hd (show_nat n) \<noteq> CHR ''+''"
  proof -
    have "(of_char (hd (show_nat n)) :: nat) = 48 + d" using d by (simp add: of_char_of)
    moreover have "(of_char CHR ''-'' :: nat) = 45" "(of_char CHR ''+'' :: nat) = 43" by simp_all
    ultimately show "hd (show_nat n) \<noteq> CHR ''-''" "hd (show_nat n) \<noteq> CHR ''+''" by auto
  qed
  have dw: "dropWhile isWhiteSpace (show_nat n) = show_nat n"
    using ws show_nat_nonempty[of n] by (cases "show_nat n") auto
  show ?thesis
    using sg show_nat_nonempty[of n]
    by (simp add: parseInt_def dw Let_def parseDigits_show_nat)
qed


lemma io_bind_Inr:
  "io_bind m f w = (Inr y, w') \<longleftrightarrow> (\<exists>x w1. m w = (Inr x, w1) \<and> f x w1 = (Inr y, w'))"
  by (auto simp: io_bind_def split: prod.splits sum.splits)

lemma io_catch_swallow: "\<exists>w'. io_catch m (\<lambda>_. io_return ()) w = (Inr (), w')"
  by (cases "m w") (auto simp: io_catch_def io_return_def split: sum.splits)

lemma run_cleanup_returns: "\<exists>w'. run_cleanup e w = (Inr (), w')"
proof -
  obtain w1 where 1: "cleanupCache e w = (Inr (), w1)"
    unfolding cleanupCache_def using io_catch_swallow by blast
  obtain w2 where 2: "cleanupBackups e w1 = (Inr (), w2)"
    unfolding cleanupBackups_def using io_catch_swallow by blast
  obtain w3 where 3: "vacuumDatabase w2 = (Inr (), w3)"
    unfolding vacuumDatabase_def using io_catch_swallow by blast
  from 1 2 3 show ?thesis by (simp add: run_cleanup_def io_bind_def)
qed

lemma getLastCleanupTime_clock:
  "fst (getLastCleanupTime (w\<lparr>now := a, ticks := b\<rparr>)) = fst (getLastCleanupTime w)"
  by (simp add: getLastCleanupTime_def getSetting_def db_check_def sql_run_def io_defs
      split: prod.splits sum.splits)

lemma getLastCleanupTime_world: "snd (getLastCleanupTime w) = w"
  by (simp add: getLastCleanupTime_def getSetting_def db_check_def sql_run_def io_defs
      split: prod.splits sum.splits)

lemma getLastCleanupTime_ok:
  "fst (getLastCleanupTime w) = Inr l \<Longrightarrow>
     db_open w \<and> \<not> failing (Sql ''getSetting'' ''lastCleanupTime'') w"
  by (auto simp: getLastCleanupTime_def getSetting_def db_check_def sql_run_def io_defs
      split: prod.splits sum.splits if_splits)

lemma getLastCleanupTime_stored:
  assumes "db_open w" and "\<not> failing (Sql ''getSetting'' ''lastCleanupTime'') w"
    and "map_of (settings w) ''lastCleanupTime'' = Some (show_nat t, u)"
  shows "getLastCleanupTime w = (Inr (Some (int t)), w)"
  using assms show_nat_nonempty[of t]
  by (simp add: getLastCleanupTime_def getSetting_def db_check_def sql_run_def io_defs
      parseInt_show_nat)

lemma updateLastCleanupTime_stored:
  assumes "updateLastCleanupTime w = (Inr (), w1)"
  shows "\<exists>u. map_of (settings w1) ''lastCleanupTime'' = Some (show_nat (now w), u)
         \<and> stable w w1"
  using assms
  by (auto simp: updateLastCleanupTime_def setSetting_def Date_now_def db_check_def sql_run_def
      io_defs stable_def update_conv' split: if_splits)

lemma checkAndCleanup_ran:
  assumes c: "checkAndCleanup e force w = (Inr (), w1)"
    and l: "fst (getLastCleanupTime w) = Inr prev"
    and due: "cleanupDue e force (now w) prev"
  shows "db_open w1 \<and> \<not> failing (Sql ''getSetting'' ''lastCleanupTime'') w1
         \<and> (\<exists>t' u. map_of (settings w1) ''lastCleanupTime'' = Some (show_nat t', u)
               \<and> now w \<le> t')"
proof -
  define wa where "wa = w\<lparr>now := now w + (case ticks w of [] \<Rightarrow> 0 | t # _ \<Rightarrow> t),
                         ticks := tl (ticks w)\<rparr>"
  have dn: "Date_now w = (Inr (now w), wa)" by (simp add: Date_now_def wa_def)
  have la: "getLastCleanupTime wa = (Inr prev, wa)"
    by (simp add: prod_eq_iff getLastCleanupTime_world)
      (simp add: wa_def getLastCleanupTime_clock l)
  from getLastCleanupTime_ok[of wa prev] la
  have oka: "db_open wa" "\<not> failing (Sql ''getSetting'' ''lastCleanupTime'') wa" by auto
  obtain wb where rc: "run_cleanup e wa = (Inr (), wb)" using run_cleanup_returns by blast
  from preserves_run_cleanup[of e] rc have sab: "stable wa wb"
    by (metis preserves_def snd_conv)
  from c dn la due rc have u: "updateLastCleanupTime wb = (Inr (), w1)"
    by (simp add: checkAndCleanup_def io_bind_def)
  from updateLastCleanupTime_stored[OF u] obtain u' where
    st: "map_of (settings w1) ''lastCleanupTime'' = Some (show_nat (now wb), u')"
    and sb1: "stable wb w1" by blast
  have "now w \<le> now wa" by (simp add: wa_def)
  with sab sb1 oka st show ?thesis by (auto simp: stable_def failing_def)
qed

text \<open>
  C6, amended: when a call of \<open>checkAndCleanup\<close> performed the cleanup (it was
  forced, or the time since the recorded last cleanup had reached the interval) and
  returned, a later call without force whose clock reading is less than one interval after
  the first call's reading changes nothing: it returns, and the world differs from the
  one before it only in the clock. \<open>t2\<close> and \<open>tk\<close> are the clock at the second call.
\<close>

theorem checkAndCleanup_twice:
  assumes c: "checkAndCleanup e force w = (Inr (), w1)"
    and l: "fst (getLastCleanupTime w) = Inr prev"
    and due: "cleanupDue e force (now w) prev"
    and soon: "int t2 - int (now w) < int (cacheCleanupInterval (CONFIG e))"
  shows "checkAndCleanup e False (w1\<lparr>now := t2, ticks := tk\<rparr>)
     = (Inr (), w1\<lparr>now := t2 + (case tk of [] \<Rightarrow> 0 | d # _ \<Rightarrow> d), ticks := tl tk\<rparr>)"
proof -
  from checkAndCleanup_ran[OF c l due] obtain t' u where
    ok: "db_open w1" "\<not> failing (Sql ''getSetting'' ''lastCleanupTime'') w1"
    and st: "map_of (settings w1) ''lastCleanupTime'' = Some (show_nat t', u)"
    and le: "now w \<le> t'" by blast
  define w2 where "w2 = w1\<lparr>now := t2 + (case tk of [] \<Rightarrow> 0 | d # _ \<Rightarrow> d), ticks := tl tk\<rparr>"
  have dn: "Date_now (w1\<lparr>now := t2, ticks := tk\<rparr>) = (Inr t2, w2)"
    by (simp add: Date_now_def w2_def)
  have "getLastCleanupTime w2 = (Inr (Some (int t')), w2)"
    using ok st by (intro getLastCleanupTime_stored) (auto simp: w2_def failing_def)
  moreover have "\<not> cleanupDue e False t2 (Some (int t'))"
    using soon le by (simp add: cleanupDue_def)
  ultimately show ?thesis using dn
    by (simp add: checkAndCleanup_def io_bind_def io_return_def w2_def)
qed


lemma parseInt_1000: "parseInt True ''1000'' = Some 1000"
  using parseInt_show_nat[of 1000] by (simp add: show_nat_1000)

lemma digit_chars:
  "char_of (48::nat) = CHR ''0''" "char_of (49::nat) = CHR ''1''" "char_of (50::nat) = CHR ''2''"
  "char_of (51::nat) = CHR ''3''" "char_of (52::nat) = CHR ''4''" "char_of (53::nat) = CHR ''5''"
  "char_of (54::nat) = CHR ''6''" "char_of (55::nat) = CHR ''7''" "char_of (56::nat) = CHR ''8''"
  "char_of (57::nat) = CHR ''9''"
  by code_simp+

lemma show_nat_86401000: "show_nat 86401000 = ''86401000''"
  by (simp add: show_nat.simps digit_chars)

lemmas cleanup_defs = checkAndCleanup_def cleanupDue_def run_cleanup_def cleanupCache_def
  cleanupCache_item_def cleanupBackups_def cleanupBackups_item_def vacuumDatabase_def
  newestFirst_def

lemma first_call_gated:
  "checkAndCleanup ex_env False w_gate = (Inr (), w_gate\<lparr>now := 86401000, ticks := []\<rparr>)"
  by (simp add: cleanup_defs io_defs db_defs Date_now_def w_gate_def ex_defs parseInt_1000)

lemma second_call_runs:
  "map_of (settings (snd (checkAndCleanup ex_env False (w_gate\<lparr>now := 86401000, ticks := []\<rparr>))))
     ''lastCleanupTime'' = Some (''86401000'', 86401000)"
  by (simp add: cleanup_defs io_defs db_defs fs_defs Date_now_def w_gate_def ex_defs parseInt_1000
      show_nat_86401000 child_name_def startsWith_def List.map_filter_simps)

text \<open>
  C6, as the claim states it, fails when the first of the two calls is itself held back
  by the gate: the gate is measured from the recorded \<open>lastCleanupTime\<close>, not from the
  previous call. In \<open>w_gate\<close> the first call does nothing; the second call, one
  millisecond later, runs the cleanup and records a new \<open>lastCleanupTime\<close>.
\<close>

theorem checkAndCleanup_twice_counterexample:
  "int (now (snd (checkAndCleanup ex_env False w_gate))) - int (now w_gate)
      < int (cacheCleanupInterval (CONFIG ex_env))
   \<and> map_of (settings (snd (checkAndCleanup ex_env False w_gate))) ''lastCleanupTime''
      = Some (''1000'', 1000)
   \<and> map_of (settings (snd (checkAndCleanup ex_env False
          (snd (checkAndCleanup ex_env False w_gate))))) ''lastCleanupTime''
      = Some (''86401000'', 86401000)"
  by (simp add: first_call_gated second_call_runs) (simp add: w_gate_def ex_defs)

theorem checkAndCleanup_twice_witness:
  "fst (checkAndCleanup ex_env False w_due) = Inr ()
   \<and> fst (getLastCleanupTime w_due) = Inr (Some 0)
   \<and> cleanupDue ex_env False (now w_due) (Some 0)
   \<and> int 86401005 - int (now w_due) < int (cacheCleanupInterval (CONFIG ex_env))
   \<and> checkAndCleanup ex_env False
        ((snd (checkAndCleanup ex_env False w_due))\<lparr>now := 86401005, ticks := []\<rparr>)
      = (Inr (), (snd (checkAndCleanup ex_env False w_due))\<lparr>now := 86401005, ticks := []\<rparr>)"
proof -
  have f: "fst (checkAndCleanup ex_env False w_due) = Inr ()"
    by (simp add: cleanup_defs io_defs db_defs fs_defs Date_now_def w_due_def ex_defs
        child_name_def startsWith_def List.map_filter_simps)
  then have c: "checkAndCleanup ex_env False w_due
      = (Inr (), snd (checkAndCleanup ex_env False w_due))"
    by (simp add: prod_eq_iff)
  have l: "fst (getLastCleanupTime w_due) = Inr (Some 0)"
    by (simp add: io_defs db_defs w_due_def ex_defs)
  have due: "cleanupDue ex_env False (now w_due) (Some 0)"
    by (simp add: cleanupDue_def w_due_def ex_defs)
  have soon: "int 86401005 - int (now w_due) < int (cacheCleanupInterval (CONFIG ex_env))"
    by (simp add: w_due_def ex_defs)
  from checkAndCleanup_twice[OF c l due soon, of "[]"] f l due soon
  show ?thesis by simp
qed

section \<open>Reading through the cache (claim C7)\<close>










lemma parents_gone: "parents ''/h/Desktop/gone.png'' = [''/h'', ''/h/Desktop'']"
  by (simp add: parents_def upt_conv_Cons)






section \<open>The cache cleanup sweep (claims C5 and C8)\<close>

lemma show_nat_864001000: "show_nat 864001000 = ''864001000''"
  by (simp add: show_nat.simps digit_chars)

text \<open>
  C5 on the code: \<open>cleanup\<close> looks for the artifact under \<open>getCachePath\<close>, which
  makes a new name from the present clock reading, not the name the artifact was stored
  under. In \<open>w_expired\<close> the file's artifact (the one \<open>findCacheFile\<close> finds) is
  ten days old; the sweep removes the row and leaves the artifact on disk.
\<close>

theorem cleanup_leaves_artifact:
  "fst (findCacheFile ex_env ''/h/Desktop/a.png'' w_expired)
      = Inr (Some ''/h/.config/screen-cut/cache/_h_Desktop_a.png_1000'')
   \<and> fst (cleanup ex_env None w_expired) = Inr ()
   \<and> files (snd (cleanup ex_env None w_expired)) = []
   \<and> existsSync ''/h/.config/screen-cut/cache/_h_Desktop_a.png_1000''
        (snd (cleanup ex_env None w_expired))"
  by (simp add: w_expired_def ex_defs fs_defs cache_defs io_defs db_defs Date_now_def
      show_nat_864001000)

text \<open>
  C8 on the code: the loop of \<open>cleanup\<close> has no \<open>try\<close> of its own. In
  \<open>w_two_expired\<close> removing the first row fails; the exception leaves the loop and
  the second expired file is never processed. Without the failure both rows go.
\<close>

theorem cleanup_stops_at_failure:
  "fst (cleanup ex_env None w_two_expired) = Inl StoreFailure
   \<and> map f_path (files (snd (cleanup ex_env None w_two_expired)))
      = [''/h/Desktop/a.png'', ''/h/Desktop/b.png'']
   \<and> fst (cleanup ex_env None (w_two_expired\<lparr>faults := []\<rparr>)) = Inr ()
   \<and> files (snd (cleanup ex_env None (w_two_expired\<lparr>faults := []\<rparr>))) = []"
  by (simp add: w_two_expired_def ex_defs fs_defs cache_defs io_defs db_defs Date_now_def
      show_nat_864001000)

section \<open>The state after a deletion (claim C2)\<close>

lemmas delete_defs = deleteFiles_def deleteFiles_item_def createBackup_def deleteCommand_def
  deleteCommand_run_def deleteCommand_item_def requestedCount_def listFiles_def isoDate_def
  cache_init_def basename_def dirname_def

text \<open>
  C2 on the code: \<open>deleteCommand\<close>, the function behind the command line's
  \<^verbatim>\<open>delete\<close>, backs the file up, records the backup and unlinks the origin, and
  stops there: the tracked-file row stays and no deleted-file marker is written.
\<close>

theorem deleteCommand_keeps_row:
  "fst (deleteCommand ex_env None w_tracked) = Inr ()
   \<and> \<not> existsSync ''/h/Desktop/a.png'' (snd (deleteCommand ex_env None w_tracked))
   \<and> map originalPath (backups (snd (deleteCommand ex_env None w_tracked))) = [''/h/Desktop/a.png'']
   \<and> map f_path (files (snd (deleteCommand ex_env None w_tracked))) = [''/h/Desktop/a.png'']
   \<and> deleted_files (snd (deleteCommand ex_env None w_tracked)) = []"
  by (simp add: w_tracked_def w_still_def ex_defs fs_defs cache_defs io_defs db_defs Date_now_def
      delete_defs)

text \<open>The sibling \<open>deleteFiles\<close> does all of it on the same input.\<close>

lemma deleteFiles_example:
  "fst (deleteFiles ex_env [''/h/Desktop/a.png''] w_tracked)
     = Inr \<lparr>deleted = [''/h/Desktop/a.png''], failed = [], backupDir = ''/w/backups/2026-01-01''\<rparr>
   \<and> \<not> existsSync ''/h/Desktop/a.png'' (snd (deleteFiles ex_env [''/h/Desktop/a.png''] w_tracked))
   \<and> map originalPath (backups (snd (deleteFiles ex_env [''/h/Desktop/a.png''] w_tracked))) = [''/h/Desktop/a.png'']
   \<and> files (snd (deleteFiles ex_env [''/h/Desktop/a.png''] w_tracked)) = []
   \<and> map d_path (deleted_files (snd (deleteFiles ex_env [''/h/Desktop/a.png''] w_tracked))) = [''/h/Desktop/a.png'']"
  by (simp add: w_tracked_def w_still_def ex_defs fs_defs cache_defs io_defs db_defs Date_now_def
      delete_defs)

section \<open>Missing files and shortfall in a deletion batch (claim C9)\<close>

lemma deleteFiles_item_skip:
  assumes "\<not> existsSync f w"
  shows "deleteFiles_item bdir f results w
     = (Inr results, w\<lparr>log := log w @ [Console (SkippingNonExistent (basename f))]\<rparr>)"
  using assms by (simp add: deleteFiles_item_def io_defs)

lemma deleteCommand_item_counts:
  "\<exists>c' w'. deleteCommand_item bdir fi c w = (Inr c', w') \<and> fst c' + snd c' = fst c + snd c + 1"
  by (auto simp: deleteCommand_item_def io_catch_def io_bind_def io_return_def
      split: prod.splits sum.splits)

lemma deleteCommand_loop_counts:
  "\<exists>c' w'. deleteCommand_loop bdir fls c w = (Inr c', w')
      \<and> fst c' + snd c' = fst c + snd c + length fls"
proof (induction fls arbitrary: c w)
  case Nil
  show ?case by (simp add: io_return_def)
next
  case (Cons fi rest)
  obtain c1 w1 where 1: "deleteCommand_item bdir fi c w = (Inr c1, w1)"
    and s1: "fst c1 + snd c1 = fst c + snd c + 1"
    using deleteCommand_item_counts by blast
  from Cons.IH[of c1 w1] obtain c' w' where
    2: "deleteCommand_loop bdir rest c1 w1 = (Inr c', w')"
    and s2: "fst c' + snd c' = fst c1 + snd c1 + length rest" by blast
  from 1 2 s1 s2 show ?case by (simp add: io_bind_def)
qed

lemma listFiles_returns: "\<exists>w'. listFiles fls w = (Inr (), w')"
  unfolding listFiles_def
proof (induction fls arbitrary: w)
  case Nil
  show ?case by (simp add: io_return_def)
next
  case (Cons fi rest)
  show ?case
    using Cons.IH
    by (cases "f_mtime fi") (auto simp: io_bind_def io_return_def Date_now_def)
qed

lemma deleteCommand_run_shortfall:
  assumes "int (length fls) < n"
  shows "\<exists>w2 s k. deleteCommand_run e fls n w = (Inr (), w2) \<and> s + k = length fls
      \<and> (\<exists>pre. log w2 = pre @ [Console (DeletionSummary s k),
                                 Console (OnlyAvailable (length fls) (nat n))])"
proof -
  from assms have m: "min (nat n) (length fls) = length fls" by simp
  define w0 where
    "w0 = w\<lparr>log := log w @ [Console (PreparingToDelete (length fls) (Some (nat n)))]\<rparr>"
  obtain wl where l: "listFiles fls w0 = (Inr (), wl)"
    using listFiles_returns by blast
  obtain t wt where d: "Date_now wl = (Inr t, wt)"
    by (simp add: Date_now_def)
  obtain c wc where
    lp: "deleteCommand_loop (join (join (cwd e) ''backups'') (isoDate e t)) fls (0, 0) wt
      = (Inr c, wc)" and sc: "fst c + snd c = length fls"
    using deleteCommand_loop_counts[of "join (join (cwd e) ''backups'') (isoDate e t)" fls
        "(0, 0)" wt]
    by auto
  have "deleteCommand_run e fls n w
      = (Inr (), wc\<lparr>log := log wc @ [Console (DeletionSummary (fst c) (snd c)),
                                      Console (OnlyAvailable (length fls) (nat n))]\<rparr>)"
    using assms l d lp
    by (simp add: deleteCommand_run_def m Let_def io_bind_def emit_def w0_def)
  with sc show ?thesis by auto
qed

text \<open>
  What holds of C9: in \<open>deleteFiles\<close> a path that does not exist leaves the result
  lists as they are and the loop goes on; and \<open>deleteCommand\<close>, asked for more files
  than the index returns, processes exactly those, returns normally and reports the
  shortfall.
\<close>

lemma delete_skips_missing_and_reports_shortfall:
  "(\<not> existsSync f w \<longrightarrow>
      deleteFiles_item bdir f results w
        = (Inr results, w\<lparr>log := log w @ [Console (SkippingNonExistent (basename f))]\<rparr>)
      \<and> deleteFiles_loop bdir (f # rest) results w
        = deleteFiles_loop bdir rest results
            (w\<lparr>log := log w @ [Console (SkippingNonExistent (basename f))]\<rparr>))
   \<and> (io_bind (db_init e) (\<lambda>_. io_bind (cache_init e) (\<lambda>_. getRecentFiles 5)) w = (Inr fls, w1)
        \<and> fls \<noteq> [] \<and> requestedCount count = Some n \<and> int (length fls) < n
      \<longrightarrow> (\<exists>w2 s k. deleteCommand e count w = (Inr (), w2) \<and> s + k = length fls
            \<and> (\<exists>pre. log w2 = pre @ [Console (DeletionSummary s k),
                                       Console (OnlyAvailable (length fls) (nat n))])))"
proof (intro conjI impI)
  assume a: "\<not> existsSync f w"
  show "deleteFiles_item bdir f results w
        = (Inr results, w\<lparr>log := log w @ [Console (SkippingNonExistent (basename f))]\<rparr>)"
    using a by (rule deleteFiles_item_skip)
  then show "deleteFiles_loop bdir (f # rest) results w
        = deleteFiles_loop bdir rest results
            (w\<lparr>log := log w @ [Console (SkippingNonExistent (basename f))]\<rparr>)"
    by (simp add: io_bind_def)
next
  assume a: "io_bind (db_init e) (\<lambda>_. io_bind (cache_init e) (\<lambda>_. getRecentFiles 5)) w
        = (Inr fls, w1)
      \<and> fls \<noteq> [] \<and> requestedCount count = Some n \<and> int (length fls) < n"
  then obtain wa wb where 1: "db_init e w = (Inr (), wa)"
    and 2: "cache_init e wa = (Inr (), wb)" and 3: "getRecentFiles 5 wb = (Inr fls, w1)"
    by (auto simp: io_bind_Inr)
  from a have pos: "\<not> n \<le> 0" by auto
  from deleteCommand_run_shortfall[of fls n e w1] a obtain w2 s k where
    r: "deleteCommand_run e fls n w1 = (Inr (), w2)" and sk: "s + k = length fls"
    and lg: "\<exists>pre. log w2 = pre @ [Console (DeletionSummary s k),
                                   Console (OnlyAvailable (length fls) (nat n))]"
    by blast
  have "deleteCommand e count w = (Inr (), w2)"
    using a 1 2 3 r pos by (simp add: deleteCommand_def io_catch_def io_bind_def)
  with sk lg show "\<exists>w2 s k. deleteCommand e count w = (Inr (), w2) \<and> s + k = length fls
            \<and> (\<exists>pre. log w2 = pre @ [Console (DeletionSummary s k),
                                       Console (OnlyAvailable (length fls) (nat n))])"
    by blast
qed

lemma requestedCount_3: "requestedCount (Some ''3'') = Some 3"
  by (simp add: requestedCount_def parseInt_def isWhiteSpace_def digitVal_def)

text \<open>
  C9 on the code: \<open>deleteCommand\<close> has no test for existence. A tracked path whose
  file is not on disk makes \<open>copyFile\<close> throw, and the item is counted as a failure
  (\<open>DeletionSummary 0 1\<close>); \<open>deleteFiles\<close> on the same path skips it and reports
  no failure.
\<close>

theorem deleteCommand_counts_missing_as_failure:
  "existsSync ''/h/Desktop/gone.png'' w_stale = False
   \<and> fst (deleteCommand ex_env None w_stale) = Inr ()
   \<and> last (log (snd (deleteCommand ex_env None w_stale))) = Console (DeletionSummary 0 1)
   \<and> fst (deleteFiles ex_env [''/h/Desktop/gone.png''] w_stale)
      = Inr \<lparr>deleted = [], failed = [], backupDir = ''/w/backups/2026-01-01''\<rparr>"
  by (simp add: w_stale_def ex_defs fs_defs absent_error_def parents_gone cache_defs io_defs
      db_defs Date_now_def delete_defs)

section \<open>Backup before removal (claim C1)\<close>

subsection \<open>Segments in write-ahead order\<close>







subsection \<open>What the operations append to the log\<close>


















subsection \<open>Steps that log one event when they succeed\<close>

























section \<open>The retention sweep over the backups (claim C4)\<close>













section \<open>Restoring a deleted file (claim C3)\<close>

lemmas restore_defs = restore_def restore_item_def restore_from_def findInTrash_def Let_def

lemma w_downloads_deleted_eq:
  "fst (deleteFiles ex_env [''/h/Downloads/a.png''] w_downloads)
     = Inr \<lparr>deleted = [''/h/Downloads/a.png''], failed = [],
            backupDir = ''/w/backups/2026-01-01''\<rparr>
   \<and> fs w_downloads_deleted
       = ex_dirs @ [(''/w/backups/2026-01-01/a.png'', File [1, 2, 3] 1000)]
   \<and> files w_downloads_deleted = []
   \<and> deleted_files w_downloads_deleted
       = [\<lparr>d_path = ''/h/Downloads/a.png'', deletedAt = 1000,
           d_backupPath = ''/w/backups/2026-01-01/a.png'', d_size = 3\<rparr>]"
  by (simp add: w_downloads_deleted_def w_downloads_def ex_defs fs_defs cache_defs io_defs
      db_defs Date_now_def delete_defs)

text \<open>
  C3 on the code: a tracked screenshot in \<^verbatim>\<open>/h/Downloads\<close> is deleted
  with \<open>deleteFiles\<close> (backup written, marker added) and then restored with
  \<open>restore\<close>. The restore succeeds, and the file is not at its original path: it is
  on the desktop, the tracked-file row is for the desktop path, and the marker of the
  original path is gone.
\<close>

theorem restore_not_at_original_path:
  "fst (restore ex_env None False w_downloads_deleted)
     = Inr \<lparr>restored = [''/h/Desktop/a.png''], not_restored = []\<rparr>
   \<and> \<not> existsSync ''/h/Downloads/a.png'' w_downloads_restored
   \<and> map_of (fs w_downloads_restored) ''/h/Desktop/a.png'' = Some (File [1, 2, 3] 1000)
   \<and> map f_path (files w_downloads_restored) = [''/h/Desktop/a.png'']
   \<and> deleted_files w_downloads_restored = []"
  by (simp add: w_downloads_restored_def w_downloads_deleted_def w_downloads_def ex_defs fs_defs
      cache_defs io_defs db_defs Date_now_def delete_defs restore_defs show_nat_1000)

text \<open>
  When the deleted screenshot was on the desktop, the same two calls bring back the
  original path with its bytes, its row and no marker.
\<close>

lemma restore_desktop_example:
  "fst (restore ex_env None False w_desktop_deleted)
     = Inr \<lparr>restored = [''/h/Desktop/a.png''], not_restored = []\<rparr>
   \<and> map_of (fs w_desktop_restored) ''/h/Desktop/a.png'' = Some (File [1, 2, 3] 1000)
   \<and> map f_path (files w_desktop_restored) = [''/h/Desktop/a.png'']
   \<and> deleted_files w_desktop_restored = []"
  by (simp add: w_desktop_restored_def w_desktop_deleted_def w_tracked_def w_still_def ex_defs
      fs_defs cache_defs io_defs db_defs Date_now_def delete_defs restore_defs show_nat_1000)

end
